theory Spec2Isabelle
  imports Main "HOL-Library.Char_ord" "HOL-Library.List_Lexorder"
begin

section \<open>Etag-validated cache for eval-log tables (s3_log_cache.py)\<close>

text \<open>
  The module has three functions: \<open>resolve_logs_with_etag\<close>, \<open>get_cached_df\<close> and
  \<open>put_cached_df\<close>. Each of them is plumbing between collaborators that live outside the
  module: the key-value store handed in as \<open>kvstore\<close>, the \<open>json\<close> and \<open>pandas\<close> libraries,
  the filesystem abstraction and the log-file recogniser of \<open>inspect_ai\<close>. The collaborators
  are parameters of the model (records of functions), so every theorem below holds for
  whatever they do; what is modelled concretely is the Python of the module itself.
\<close>

subsection \<open>Python values and exceptions\<close>

text \<open>
  An exception instance, as caught by \<open>except Exception\<close>: the payload is the class name.
  Signals that do not derive from \<open>Exception\<close> (KeyboardInterrupt, SystemExit) are not
  failures of an operation and are outside the model.
\<close>

datatype exn = Exception string

text \<open>
  A Python float, as far as the module looks at one: its truth value. \<open>Finite d k\<close> is the
  float nearest to the decimal \<open>d * 10 ^ k\<close> (\<open>k\<close> may be negative), so that
  \<open>Finite 3 (-1)\<close> is \<open>0.3\<close> and \<open>Finite 30000000000000004 (-17)\<close> is \<open>0.1 + 0.2\<close>.
\<close>

datatype pyfloat = Finite int int | Infinity bool | NaN

text \<open>
  The values \<open>json.loads\<close> can return. A \<open>dict\<close> is kept as the list of its items in
  insertion order; its keys are distinct, as those of a Python \<open>dict\<close> are.
\<close>

datatype pyval =
    PNone
  | PBool bool
  | PInt int
  | PFloat pyfloat
  | PStr string
  | PList "pyval list"
  | PDict "(string \<times> pyval) list"

text \<open>Python's truth value, as \<open>not records\<close> tests it.\<close>

fun truthy :: "pyval \<Rightarrow> bool" where
  "truthy PNone = False"
| "truthy (PBool b) = b"
| "truthy (PInt i) = (i \<noteq> 0)"
| "truthy (PFloat (Finite m e)) = (m \<noteq> 0)"
| "truthy (PFloat (Infinity s)) = True"
| "truthy (PFloat NaN) = True"
| "truthy (PStr s) = (s \<noteq> [])"
| "truthy (PList xs) = (xs \<noteq> [])"
| "truthy (PDict kvs) = (kvs \<noteq> [])"

text \<open>
  \<open>obj.get(key, default)\<close>: the lookup of a \<open>dict\<close>; any other decoded value (a list, a
  string, a number, \<open>None\<close>) has no attribute \<open>get\<close> and the call raises AttributeError.
\<close>

fun py_get :: "pyval \<Rightarrow> string \<Rightarrow> pyval \<Rightarrow> exn + pyval" where
  "py_get (PDict kvs) k d = Inr (case map_of kvs k of None \<Rightarrow> d | Some v \<Rightarrow> v)"
| "py_get v k d = Inl (Exception ''AttributeError'')"

text \<open>An etag argument (\<open>str | None\<close>) as a Python value.\<close>

fun etag_val :: "string option \<Rightarrow> pyval" where
  "etag_val None = PNone"
| "etag_val (Some e) = PStr e"

subsection \<open>The collaborators of the cache\<close>

text \<open>
  \<open>kvstore: Any\<close> is an object with a \<open>get\<close> and a \<open>put\<close> method over some state \<open>'s\<close>.
  Either method may raise and may change the state; it returns its outcome and the state
  it leaves behind. \<open>'j\<close> is what the store holds (the JSON text written by \<open>put\<close>).
\<close>

record ('s, 'j) kvstore =
  kv_get :: "'s \<Rightarrow> string \<Rightarrow> (exn + 'j option) \<times> 's"
  kv_put :: "'s \<Rightarrow> string \<Rightarrow> 'j \<Rightarrow> (exn + unit) \<times> 's"

text \<open>
  The library calls of the module: \<open>json.loads\<close>, \<open>json.dumps\<close>,
  \<open>df.to_json(orient="records")\<close> and \<open>pd.DataFrame.from_records\<close>, over tables \<open>'t\<close>.
\<close>

record ('j, 't) libs =
  json_loads :: "'j \<Rightarrow> exn + pyval"
  json_dumps :: "pyval \<Rightarrow> exn + 'j"
  to_json_records :: "'t \<Rightarrow> exn + 'j"
  from_records :: "pyval \<Rightarrow> exn + 't"

subsection \<open>get_cached_df\<close>

text \<open>The body of the \<open>try\<close> block of \<open>get_cached_df\<close>, statement by statement.\<close>

definition get_cached_try ::
  "('j, 't) libs \<Rightarrow> ('s, 'j) kvstore \<Rightarrow> 's \<Rightarrow> string \<Rightarrow> string option
     \<Rightarrow> (exn + 't option) \<times> 's" where
  "get_cached_try L kvstore s log_path current_etag =
     (case kv_get kvstore s log_path of
        (Inl e, s1) \<Rightarrow> (Inl e, s1)
      | (Inr None, s1) \<Rightarrow> (Inr None, s1)
      | (Inr (Some cached_value), s1) \<Rightarrow>
          (case json_loads L cached_value of
             Inl e \<Rightarrow> (Inl e, s1)
           | Inr cached_data \<Rightarrow>
               (case py_get cached_data ''etag'' PNone of
                  Inl e \<Rightarrow> (Inl e, s1)
                | Inr cached_etag \<Rightarrow>
                    if cached_etag \<noteq> etag_val current_etag then (Inr None, s1)
                    else
                      (case py_get cached_data ''records'' (PList []) of
                         Inl e \<Rightarrow> (Inl e, s1)
                       | Inr records \<Rightarrow>
                           if \<not> truthy records then (Inr None, s1)
                           else
                             (case from_records L records of
                                Inl e \<Rightarrow> (Inl e, s1)
                              | Inr df \<Rightarrow> (Inr (Some df), s1))))))"

text \<open>
  \<open>get_cached_df\<close>: the \<open>try\<close> block under \<open>except Exception: return None\<close>. The result
  is what the caller sees (a raised exception would be \<open>Inl\<close>) and the state of the store.
\<close>

definition get_cached_df ::
  "('j, 't) libs \<Rightarrow> ('s, 'j) kvstore \<Rightarrow> 's \<Rightarrow> string \<Rightarrow> string option
     \<Rightarrow> (exn + 't option) \<times> 's" where
  "get_cached_df L kvstore s log_path current_etag =
     (case get_cached_try L kvstore s log_path current_etag of
        (Inl e, s1) \<Rightarrow> (Inr None, s1)
      | (Inr r, s1) \<Rightarrow> (Inr r, s1))"

subsection \<open>put_cached_df\<close>

text \<open>The dictionary \<open>cache_data\<close> that \<open>put_cached_df\<close> builds.\<close>

definition cache_data :: "string option \<Rightarrow> pyval \<Rightarrow> pyval" where
  "cache_data etag records = PDict [(''etag'', etag_val etag), (''records'', records)]"

definition put_cached_try ::
  "('j, 't) libs \<Rightarrow> ('s, 'j) kvstore \<Rightarrow> 's \<Rightarrow> string \<Rightarrow> string option \<Rightarrow> 't
     \<Rightarrow> (exn + unit) \<times> 's" where
  "put_cached_try L kvstore s log_path etag df =
     (case to_json_records L df of
        Inl e \<Rightarrow> (Inl e, s)
      | Inr js \<Rightarrow>
          (case json_loads L js of
             Inl e \<Rightarrow> (Inl e, s)
           | Inr records \<Rightarrow>
               (case json_dumps L (cache_data etag records) of
                  Inl e \<Rightarrow> (Inl e, s)
                | Inr blob \<Rightarrow> kv_put kvstore s log_path blob)))"

text \<open>\<open>put_cached_df\<close>: the \<open>try\<close> block under \<open>except Exception: pass\<close>.\<close>

definition put_cached_df ::
  "('j, 't) libs \<Rightarrow> ('s, 'j) kvstore \<Rightarrow> 's \<Rightarrow> string \<Rightarrow> string option \<Rightarrow> 't
     \<Rightarrow> (exn + unit) \<times> 's" where
  "put_cached_df L kvstore s log_path etag df =
     (case put_cached_try L kvstore s log_path etag df of
        (Inl e, s1) \<Rightarrow> (Inr (), s1)
      | (Inr u, s1) \<Rightarrow> (Inr (), s1))"

subsection \<open>resolve_logs_with_etag\<close>

text \<open>
  \<open>FileInfo\<close>, as the storage backend reports an entry: the fields the module reads.
  \<open>fi_type\<close> is the string the code compares with \<open>"directory"\<close> and \<open>"file"\<close>.
\<close>

record file_info =
  fi_name :: string
  fi_type :: string
  fi_etag :: "string option"

text \<open>\<open>EvalLogInfo\<close>: the module reads its \<open>name\<close> only.\<close>

record eval_log_info =
  eli_name :: string

text \<open>One log reference: a \<open>str\<close>, an \<open>os.PathLike\<close> (some type \<open>'p\<close>) or an \<open>EvalLogInfo\<close>.\<close>

datatype 'p log_ref = Str string | PathLike 'p | EvalLogInfo eval_log_info

text \<open>The argument \<open>logs\<close>: one reference, or a sequence of them.\<close>

datatype 'p logs_arg = One "'p log_ref" | Sequence "'p log_ref list"

text \<open>
  The collaborators of the resolver, over a backend state \<open>'b\<close>:
  \<^item> \<open>as_posix p\<close> is \<open>Path(p).as_posix()\<close>;
  \<^item> \<open>fs_info b log_str\<close> is \<open>filesystem(log_str).info(log_str)\<close>;
  \<^item> \<open>fs_ls b log_str name\<close> is \<open>filesystem(log_str).ls(name, recursive=True)\<close>;
  \<^item> \<open>log_files_from_ls fis\<close> is \<open>log_files_from_ls(fis, sort=False)\<close>.
  A backend call may raise, and returns the backend state it leaves behind.
\<close>

record ('b, 'p) resolver =
  as_posix :: "'p \<Rightarrow> string"
  fs_info :: "'b \<Rightarrow> string \<Rightarrow> (exn + file_info) \<times> 'b"
  fs_ls :: "'b \<Rightarrow> string \<Rightarrow> string \<Rightarrow> (exn + file_info list) \<times> 'b"
  log_files_from_ls :: "file_info list \<Rightarrow> exn + eval_log_info list"

text \<open>One element of the comprehension that builds \<open>logs_str\<close>.\<close>

fun log_str_of :: "('b, 'p) resolver \<Rightarrow> 'p log_ref \<Rightarrow> string" where
  "log_str_of R (PathLike p) = as_posix R p"
| "log_str_of R (EvalLogInfo i) = eli_name i"
| "log_str_of R (Str s) = s"

text \<open>
  The loop that expands directories: \<open>log_paths\<close> is the list built so far. The first
  backend call that raises ends the loop with its exception.
\<close>

fun expand_dirs ::
  "('b, 'p) resolver \<Rightarrow> 'b \<Rightarrow> string list \<Rightarrow> file_info list
     \<Rightarrow> (exn + file_info list) \<times> 'b" where
  "expand_dirs R b [] log_paths = (Inr log_paths, b)"
| "expand_dirs R b (log_str # rest) log_paths =
     (case fs_info R b log_str of
        (Inl e, b1) \<Rightarrow> (Inl e, b1)
      | (Inr info, b1) \<Rightarrow>
          if fi_type info = ''directory'' then
            (case fs_ls R b1 log_str (fi_name info) of
               (Inl e, b2) \<Rightarrow> (Inl e, b2)
             | (Inr fis, b2) \<Rightarrow>
                 expand_dirs R b2 rest
                   (log_paths @ filter (\<lambda>fi. fi_type fi = ''file'') fis))
          else expand_dirs R b1 rest (log_paths @ [info]))"

text \<open>
  \<open>{fi.name: fi.etag for fi in log_paths}\<close>: a later entry of the same name replaces an
  earlier one.
\<close>

definition etag_map_of :: "file_info list \<Rightarrow> (string \<rightharpoonup> string option)" where
  "etag_map_of log_paths = foldl (\<lambda>m fi. m(fi_name fi \<mapsto> fi_etag fi)) Map.empty log_paths"

text \<open>\<open>etag_map.get(name)\<close>: \<open>None\<close> for a name that is not a key.\<close>

definition etag_map_get :: "(string \<rightharpoonup> string option) \<Rightarrow> string \<Rightarrow> string option" where
  "etag_map_get m n = (case m n of None \<Rightarrow> None | Some e \<Rightarrow> e)"

text \<open>\<open>logs_list = [logs] if isinstance(logs, str | PathLike | EvalLogInfo) else logs\<close>\<close>

fun logs_list_of :: "'p logs_arg \<Rightarrow> 'p log_ref list" where
  "logs_list_of (One l) = [l]"
| "logs_list_of (Sequence ls) = ls"

definition resolve_logs_with_etag ::
  "('b, 'p) resolver \<Rightarrow> 'b \<Rightarrow> 'p logs_arg
     \<Rightarrow> (exn + (string \<times> string option) list) \<times> 'b" where
  "resolve_logs_with_etag R b logs =
     (let logs_list = logs_list_of logs;
          logs_str = map (log_str_of R) logs_list
      in case expand_dirs R b logs_str [] of
           (Inl e, b1) \<Rightarrow> (Inl e, b1)
         | (Inr log_paths, b1) \<Rightarrow>
             (case log_files_from_ls R log_paths of
                Inl e \<Rightarrow> (Inl e, b1)
              | Inr log_files \<Rightarrow>
                  (let etag_map = etag_map_of log_paths
                   in (Inr (map (\<lambda>log_file.
                                   (eli_name log_file, etag_map_get etag_map (eli_name log_file)))
                                log_files), b1))))"

subsection \<open>Test doubles\<close>

text \<open>
  Concrete collaborators, for running the module on concrete inputs. A JSON text is
  identified with the value it denotes (\<open>Doc v\<close>); \<open>Garbage\<close> is a text that is not JSON.
\<close>

datatype json_text = Doc pyval | Garbage string

fun demo_loads :: "json_text \<Rightarrow> exn + pyval" where
  "demo_loads (Doc v) = Inr v"
| "demo_loads (Garbage t) = Inl (Exception ''JSONDecodeError'')"

text \<open>
  A table: its column names and its rows, each row with one cell per column. A cell holds
  a JSON-compatible value or an object that \<open>to_json\<close> cannot serialise.
\<close>

datatype cell = Cell pyval | Unserialisable

datatype demo_df = DataFrame (df_columns: "string list") (df_rows: "cell list list")

text \<open>
  \<open>to_json\<close> writes a float with at most ten decimal places (its default
  \<open>double_precision\<close>), and \<open>nan\<close> and the infinities as \<open>null\<close>.
\<close>

fun json_float :: "pyfloat \<Rightarrow> pyval" where
  "json_float (Finite d k) =
     (if -10 \<le> k then PFloat (Finite d k)
      else PFloat (Finite (sgn d * ((2 * \<bar>d\<bar> + 10 ^ nat (-10 - k)) div (2 * 10 ^ nat (-10 - k))))
                          (-10)))"
| "json_float (Infinity s) = PNone"
| "json_float NaN = PNone"

fun json_cell :: "cell \<Rightarrow> pyval option" where
  "json_cell (Cell (PFloat f)) = Some (json_float f)"
| "json_cell (Cell v) = Some v"
| "json_cell Unserialisable = None"

text \<open>
  \<open>df.to_json(orient="records")\<close>: one object per row, keyed by the column names. It
  refuses duplicate column names, and a table with no columns has no records.
\<close>

definition demo_to_json :: "demo_df \<Rightarrow> exn + json_text" where
  "demo_to_json df =
     (if \<not> distinct (df_columns df) then Inl (Exception ''ValueError'')
      else if df_columns df = [] then Inr (Doc (PList []))
      else
        (case those (map (\<lambda>row. map_option (\<lambda>vs. PDict (zip (df_columns df) vs))
                                   (those (map json_cell row)))
                        (df_rows df)) of
           None \<Rightarrow> Inl (Exception ''OverflowError'')
         | Some records \<Rightarrow> Inr (Doc (PList records))))"

fun record_items :: "pyval \<Rightarrow> (string \<times> pyval) list option" where
  "record_items (PDict kvs) = Some kvs"
| "record_items v = None"

fun column_values :: "string \<times> pyval \<Rightarrow> (string \<times> pyval list) option" where
  "column_values (c, PList vs) = Some (c, vs)"
| "column_values (c, v) = None"

text \<open>
  \<open>pd.DataFrame.from_records\<close>. From a list of row objects: the columns are the keys in
  the order they first appear, a key a row lacks gives \<open>nan\<close>, and rows without any key
  give a table without rows. From an object of columns: the columns sorted by name, all
  of one length. The double rejects everything else.
\<close>

fun demo_from_records :: "pyval \<Rightarrow> exn + demo_df" where
  "demo_from_records (PList rs) =
     (case those (map record_items rs) of
        None \<Rightarrow> Inl (Exception ''TypeError'')
      | Some items \<Rightarrow>
          (let columns = rev (remdups (rev (concat (map (map fst) items))))
           in Inr (DataFrame columns
                     (if columns = [] then []
                      else map (\<lambda>kvs. map (\<lambda>c. case map_of kvs c of
                                                    None \<Rightarrow> Cell (PFloat NaN)
                                                  | Some v \<Rightarrow> Cell v) columns)
                               items))))"
| "demo_from_records (PDict kvs) =
     (case those (map column_values (sort_key fst kvs)) of
        None \<Rightarrow> Inl (Exception ''ValueError'')
      | Some cols \<Rightarrow>
          (let n = (case cols of [] \<Rightarrow> 0 | (c, vs) # rest \<Rightarrow> length vs)
           in if list_all (\<lambda>(c, vs). length vs = n) cols
              then Inr (DataFrame (map fst cols)
                          (map (\<lambda>i. map (\<lambda>(c, vs). Cell (vs ! i)) cols) [0..<n]))
              else Inl (Exception ''ValueError'')))"
| "demo_from_records v = Inl (Exception ''TypeError'')"

definition demo_libs :: "(json_text, demo_df) libs" where
  "demo_libs =
     \<lparr>json_loads = demo_loads, json_dumps = (\<lambda>v. Inr (Doc v)),
      to_json_records = demo_to_json, from_records = demo_from_records\<rparr>"

text \<open>
  An in-memory store: the list of the (key, value) pairs written, newest first, so that a
  later \<open>put\<close> of a key hides the earlier ones.
\<close>

definition mem_store :: "((string \<times> json_text) list, json_text) kvstore" where
  "mem_store =
     \<lparr>kv_get = (\<lambda>s k. (Inr (map_of s k), s)),
      kv_put = (\<lambda>s k v. (Inr (), (k, v) # s))\<rparr>"

text \<open>The same store with no room left: every \<open>put\<close> raises and writes nothing.\<close>

definition full_store :: "((string \<times> json_text) list, json_text) kvstore" where
  "full_store =
     \<lparr>kv_get = (\<lambda>s k. (Inr (map_of s k), s)),
      kv_put = (\<lambda>s k v. (Inl (Exception ''OSError''), s))\<rparr>"

definition good_table :: demo_df where
  "good_table = DataFrame [''id'', ''model'']
                  [[Cell (PInt 1), Cell (PStr ''m1'')],
                   [Cell (PInt 2), Cell PNone]]"

text \<open>The records of \<open>good_table\<close>, as \<open>to_json\<close> and \<open>json.loads\<close> produce them.\<close>

definition good_records :: pyval where
  "good_records = PList [PDict [(''id'', PInt 1), (''model'', PStr ''m1'')],
                         PDict [(''id'', PInt 2), (''model'', PNone)]]"

text \<open>One row, with a cell that cannot be serialised.\<close>

definition bad_table :: demo_df where
  "bad_table = DataFrame [''id'', ''payload''] [[Cell (PInt 1), Unserialisable]]"

text \<open>A table with a column and no rows.\<close>

definition empty_table :: demo_df where
  "empty_table = DataFrame [''id''] []"

text \<open>A table with two rows and no columns.\<close>

definition bare_table :: demo_df where
  "bare_table = DataFrame [] [[], []]"

text \<open>One row holding the float \<open>0.1 + 0.2\<close>; and the same row holding \<open>0.3\<close>.\<close>

definition float_table :: demo_df where
  "float_table = DataFrame [''score''] [[Cell (PFloat (Finite 30000000000000004 (-17)))]]"

definition rounded_table :: demo_df where
  "rounded_table = DataFrame [''score''] [[Cell (PFloat (Finite 3000000000 (-10)))]]"

definition old_table :: demo_df where
  "old_table = DataFrame [''id''] [[Cell (PInt 7)]]"

text \<open>The text of a cache entry with the records of \<open>old_table\<close>.\<close>

definition old_entry :: "string option \<Rightarrow> json_text" where
  "old_entry etag = Doc (cache_data etag (PList [PDict [(''id'', PInt 7)]]))"

text \<open>
  Three texts that \<open>put_cached_df\<close> does not write: an entry without an "etag" key, an
  entry whose "records" are an object of columns, and an entry whose only record has no
  key.
\<close>

definition no_etag_entry :: json_text where
  "no_etag_entry = Doc (PDict [(''records'', PList [PDict [(''id'', PInt 7)]])])"

definition columns_entry :: json_text where
  "columns_entry = Doc (cache_data None (PDict [(''id'', PList [PInt 7, PInt 8])]))"

definition keyless_entry :: "string option \<Rightarrow> json_text" where
  "keyless_entry etag = Doc (cache_data etag (PList [PDict []]))"

text \<open>
  A backend: for every path it knows, the entry's \<open>FileInfo\<close> and its recursive listing
  (\<open>None\<close> for a directory that may not be listed). Reading it leaves it as it is. A path
  it does not know raises FileNotFoundError.
\<close>

type_synonym demo_backend = "(string \<times> file_info \<times> file_info list option) list"

definition demo_info :: "demo_backend \<Rightarrow> string \<Rightarrow> (exn + file_info) \<times> demo_backend" where
  "demo_info b log_str =
     (case map_of b log_str of
        None \<Rightarrow> (Inl (Exception ''FileNotFoundError''), b)
      | Some (info, listing) \<Rightarrow> (Inr info, b))"

definition demo_ls ::
  "demo_backend \<Rightarrow> string \<Rightarrow> string \<Rightarrow> (exn + file_info list) \<times> demo_backend" where
  "demo_ls b log_str name =
     (case map_of b name of
        None \<Rightarrow> (Inl (Exception ''FileNotFoundError''), b)
      | Some (info, None) \<Rightarrow> (Inl (Exception ''PermissionError''), b)
      | Some (info, Some listing) \<Rightarrow> (Inr listing, b))"

text \<open>A recogniser that keeps the files whose name ends in \<open>.eval\<close>.\<close>

definition demo_log_files :: "file_info list \<Rightarrow> exn + eval_log_info list" where
  "demo_log_files fis =
     Inr (map (\<lambda>fi. \<lparr>eli_name = fi_name fi\<rparr>)
            (filter (\<lambda>fi. drop (length (fi_name fi) - 5) (fi_name fi) = ''.eval'') fis))"

definition demo_resolver :: "(demo_backend, string) resolver" where
  "demo_resolver =
     \<lparr>as_posix = (\<lambda>p. p), fs_info = demo_info, fs_ls = demo_ls,
      log_files_from_ls = demo_log_files\<rparr>"

definition file_a :: file_info where
  "file_a = \<lparr>fi_name = ''logs/a.eval'', fi_type = ''file'', fi_etag = Some ''E1''\<rparr>"

definition file_b :: file_info where
  "file_b = \<lparr>fi_name = ''logs/b.eval'', fi_type = ''file'', fi_etag = None\<rparr>"

definition file_txt :: file_info where
  "file_txt = \<lparr>fi_name = ''logs/notes.txt'', fi_type = ''file'', fi_etag = Some ''E3''\<rparr>"

definition dir_logs :: file_info where
  "dir_logs = \<lparr>fi_name = ''logs'', fi_type = ''directory'', fi_etag = None\<rparr>"

definition dir_locked :: file_info where
  "dir_locked = \<lparr>fi_name = ''locked'', fi_type = ''directory'', fi_etag = None\<rparr>"

definition demo_tree :: demo_backend where
  "demo_tree =
     [(''logs'', dir_logs, Some [file_a, file_txt, file_b]),
      (''logs/a.eval'', file_a, Some []),
      (''logs/b.eval'', file_b, Some []),
      (''locked'', dir_locked, None)]"

section \<open>Properties of the cache\<close>

subsection \<open>Auxiliary facts\<close>

lemma etag_val_inj: "etag_val a = etag_val b \<longleftrightarrow> a = b"
  by (cases a; cases b) simp_all

text \<open>A write whose four steps all succeed leaves the store as \<open>kvstore.put\<close> left it.\<close>

lemma put_cached_df_stores:
  assumes "to_json_records L df = Inr js"
    and "json_loads L js = Inr records"
    and "json_dumps L (cache_data etag records) = Inr blob"
    and "kv_put kvstore s log_path blob = (Inr (), s1)"
  shows "put_cached_df L kvstore s log_path etag df = (Inr (), s1)"
  using assms by (simp add: put_cached_df_def put_cached_try_def)

text \<open>
  What a read returns when the store holds, under the path, a text that decodes to the
  dictionary \<open>put_cached_df\<close> builds.
\<close>

lemma get_cached_df_entry:
  assumes "kv_get kvstore s log_path = (Inr (Some blob), s1)"
    and "json_loads L blob = Inr (cache_data etag records)"
  shows "get_cached_df L kvstore s log_path current_etag =
           (Inr (if current_etag = etag \<and> truthy records
                 then (case from_records L records of Inl e \<Rightarrow> None | Inr df \<Rightarrow> Some df)
                 else None), s1)"
  using assms
  by (auto simp: get_cached_df_def get_cached_try_def cache_data_def etag_val_inj
           split: sum.splits)

text \<open>What the store must hold for a read to return a table.\<close>

lemma get_cached_df_hit:
  assumes "get_cached_df L kvstore s log_path current_etag = (Inr (Some df), s1)"
  shows "\<exists>blob cached_data records.
           kv_get kvstore s log_path = (Inr (Some blob), s1)
           \<and> json_loads L blob = Inr cached_data
           \<and> py_get cached_data ''etag'' PNone = Inr (etag_val current_etag)
           \<and> py_get cached_data ''records'' (PList []) = Inr records
           \<and> truthy records
           \<and> from_records L records = Inr df"
  using assms
  by (auto simp: get_cached_df_def get_cached_try_def
           split: prod.splits sum.splits option.splits if_splits)

text \<open>The concrete write used below: \<open>good_table\<close> into the empty in-memory store.\<close>

lemma demo_to_json_good: "to_json_records demo_libs good_table = Inr (Doc good_records)"
  by (simp add: demo_libs_def demo_to_json_def good_table_def good_records_def)

lemma demo_from_records_good: "from_records demo_libs good_records = Inr good_table"
  by (simp add: demo_libs_def good_table_def good_records_def)

lemma good_records_truthy: "truthy good_records"
  by (simp add: good_records_def)

lemma demo_loads_Doc: "json_loads demo_libs (Doc v) = Inr v"
  by (simp add: demo_libs_def)

lemma demo_dumps: "json_dumps demo_libs v = Inr (Doc v)"
  by (simp add: demo_libs_def)

lemma mem_store_put: "kv_put mem_store s k v = (Inr (), (k, v) # s)"
  by (simp add: mem_store_def)

lemma mem_store_get: "kv_get mem_store s k = (Inr (map_of s k), s)"
  by (simp add: mem_store_def)

lemma full_store_put: "kv_put full_store s k v = (Inl (Exception ''OSError''), s)"
  by (simp add: full_store_def)

lemma full_store_get: "kv_get full_store s k = (Inr (map_of s k), s)"
  by (simp add: full_store_def)

subsection \<open>Round trip\<close>

text \<open>
  C1 (as amended). For every path, etag and table: if \<open>to_json\<close> serialises the table, the
  store accepts the write and hands the written text back, and that text decodes to the
  dictionary written, then \<open>put_cached_df\<close> followed by \<open>get_cached_df\<close> with the same path
  and etag returns the table that \<open>from_records\<close> builds from the records of the table
  written, when these records are non-empty and \<open>from_records\<close> accepts them, and \<open>None\<close>
  otherwise. The table returned is the table written exactly when \<open>from_records\<close> rebuilds
  it from its records.
\<close>

theorem put_then_get_returns_rebuilt_table:
  assumes "to_json_records L df = Inr js"
    and "json_loads L js = Inr records"
    and "json_dumps L (cache_data etag records) = Inr blob"
    and "kv_put kvstore s log_path blob = (Inr (), s1)"
    and "kv_get kvstore s1 log_path = (Inr (Some blob), s2)"
    and "json_loads L blob = Inr (cache_data etag records)"
  shows "put_cached_df L kvstore s log_path etag df = (Inr (), s1)
         \<and> get_cached_df L kvstore s1 log_path etag =
             (Inr (if truthy records
                   then (case from_records L records of
                           Inl e \<Rightarrow> None
                         | Inr rebuilt \<Rightarrow> Some rebuilt)
                   else None), s2)"
  using put_cached_df_stores[OF assms(1-4)] get_cached_df_entry[OF assms(5,6)]
  by simp

text \<open>The round trip of \<open>good_table\<close> under etag \<open>E1\<close> through the in-memory store.\<close>

theorem put_then_get_returns_rebuilt_table_witness:
  "put_cached_df demo_libs mem_store [] ''a.log'' (Some ''E1'') good_table
     = (Inr (), [(''a.log'', Doc (cache_data (Some ''E1'') good_records))])
   \<and> get_cached_df demo_libs mem_store
        [(''a.log'', Doc (cache_data (Some ''E1'') good_records))] ''a.log'' (Some ''E1'')
     = (Inr (Some good_table), [(''a.log'', Doc (cache_data (Some ''E1'') good_records))])"
proof -
  let ?blob = "Doc (cache_data (Some ''E1'') good_records)"
  have h5: "kv_get mem_store [(''a.log'', ?blob)] ''a.log''
              = (Inr (Some ?blob), [(''a.log'', ?blob)])"
    by (simp add: mem_store_get)
  have rebuilt: "truthy good_records \<and> from_records demo_libs good_records = Inr good_table"
    by (simp add: good_records_truthy demo_from_records_good)
  from put_then_get_returns_rebuilt_table
         [OF demo_to_json_good demo_loads_Doc demo_dumps mem_store_put h5 demo_loads_Doc]
       rebuilt
  show ?thesis by simp
qed

text \<open>
  As stated for every non-empty table, the round trip fails in three ways, each on a table
  with at least one row and the empty in-memory store. \<open>bad_table\<close> has a cell that cannot
  be serialised: the write is dropped and the read finds nothing. \<open>float_table\<close> holds
  \<open>0.1 + 0.2\<close>, which \<open>to_json\<close> writes as \<open>0.3\<close>: the read returns another table.
  \<open>bare_table\<close> has rows and no columns, hence no records: the read returns \<open>None\<close>.
\<close>

theorem put_then_get_not_same_table_counterexample:
  "df_rows bad_table \<noteq> []
   \<and> fst (get_cached_df demo_libs mem_store
            (snd (put_cached_df demo_libs mem_store [] ''a.log'' (Some ''E1'') bad_table))
            ''a.log'' (Some ''E1''))
     = Inr None
   \<and> df_rows float_table \<noteq> []
   \<and> fst (get_cached_df demo_libs mem_store
            (snd (put_cached_df demo_libs mem_store [] ''a.log'' (Some ''E1'') float_table))
            ''a.log'' (Some ''E1''))
     = Inr (Some rounded_table)
   \<and> rounded_table \<noteq> float_table
   \<and> df_rows bare_table \<noteq> []
   \<and> fst (get_cached_df demo_libs mem_store
            (snd (put_cached_df demo_libs mem_store [] ''a.log'' (Some ''E1'') bare_table))
            ''a.log'' (Some ''E1''))
     = Inr None"
  by (simp add: bad_table_def float_table_def rounded_table_def bare_table_def
        demo_libs_def mem_store_def demo_to_json_def cache_data_def
        put_cached_df_def put_cached_try_def get_cached_df_def get_cached_try_def)

subsection \<open>Invalidation\<close>

text \<open>
  C2 (as amended). For every store state, path and etags \<open>E1\<close>, \<open>E2\<close> with \<open>E2 \<noteq> E1\<close>: after
  a \<open>put_cached_df\<close> under \<open>E1\<close> whose write took effect (the table was serialised, the
  store accepted the text and hands it back, and it decodes to the dictionary written), a
  \<open>get_cached_df\<close> with \<open>E2\<close> returns \<open>None\<close>.
\<close>

theorem put_then_get_changed_etag_misses:
  assumes "to_json_records L df = Inr js"
    and "json_loads L js = Inr records"
    and "json_dumps L (cache_data E1 records) = Inr blob"
    and "kv_put kvstore s log_path blob = (Inr (), s1)"
    and "kv_get kvstore s1 log_path = (Inr (Some blob), s2)"
    and "json_loads L blob = Inr (cache_data E1 records)"
    and "E2 \<noteq> E1"
  shows "put_cached_df L kvstore s log_path E1 df = (Inr (), s1)
         \<and> get_cached_df L kvstore s1 log_path E2 = (Inr None, s2)"
  using assms(7) put_cached_df_stores[OF assms(1-4)] get_cached_df_entry[OF assms(5,6)]
  by simp

text \<open>\<open>good_table\<close> written under \<open>E1\<close> over a stale entry, then read with \<open>E2\<close> and with no etag.\<close>

theorem put_then_get_changed_etag_misses_witness:
  "put_cached_df demo_libs mem_store [(''a.log'', old_entry (Some ''E2''))] ''a.log''
       (Some ''E1'') good_table
     = (Inr (), [(''a.log'', Doc (cache_data (Some ''E1'') good_records)),
                 (''a.log'', old_entry (Some ''E2''))])
   \<and> get_cached_df demo_libs mem_store
        [(''a.log'', Doc (cache_data (Some ''E1'') good_records)),
         (''a.log'', old_entry (Some ''E2''))] ''a.log'' (Some ''E2'')
     = (Inr None, [(''a.log'', Doc (cache_data (Some ''E1'') good_records)),
                   (''a.log'', old_entry (Some ''E2''))])"
proof -
  let ?blob = "Doc (cache_data (Some ''E1'') good_records)"
  let ?s1 = "[(''a.log'', ?blob), (''a.log'', old_entry (Some ''E2''))]"
  have h5: "kv_get mem_store ?s1 ''a.log'' = (Inr (Some ?blob), ?s1)"
    by (simp add: mem_store_get)
  have h7: "Some ''E2'' \<noteq> Some ''E1''"
    by simp
  show ?thesis
    by (rule put_then_get_changed_etag_misses
          [OF demo_to_json_good demo_loads_Doc demo_dumps mem_store_put h5 demo_loads_Doc h7])
qed

text \<open>
  As stated for every store state, the claim fails: the store holds an entry written under
  \<open>E2\<close>, the write under \<open>E1\<close> of a table that cannot be serialised is dropped, and the
  read with \<open>E2\<close> returns the table of the old entry.
\<close>

theorem dropped_put_then_get_old_etag_counterexample:
  "Some ''E2'' \<noteq> Some ''E1''
   \<and> get_cached_df demo_libs mem_store
        (snd (put_cached_df demo_libs mem_store [(''a.log'', old_entry (Some ''E2''))]
                ''a.log'' (Some ''E1'') bad_table))
        ''a.log'' (Some ''E2'')
     = (Inr (Some old_table), [(''a.log'', old_entry (Some ''E2''))])"
  by (simp add: bad_table_def old_table_def old_entry_def cache_data_def demo_libs_def
        mem_store_def demo_to_json_def put_cached_df_def put_cached_try_def
        get_cached_df_def get_cached_try_def)

subsection \<open>Absent etags\<close>

text \<open>
  C5 (as amended). For every path and table: let the write of the table have taken effect
  under the etag \<open>stored_etag\<close> (the table was serialised, the store accepted the text and
  hands it back, and it decodes to the dictionary written), and let the stored or the
  current etag be absent. Then \<open>get_cached_df\<close> returns the cached table, the one
  \<open>from_records\<close> builds from the stored records, if both etags are absent, the records
  are non-empty and \<open>from_records\<close> accepts them; it returns \<open>None\<close> otherwise. So an absent
  etag matches an absent etag and nothing else.
\<close>

theorem absent_etag_matches_absent_only:
  assumes "to_json_records L df = Inr js"
    and "json_loads L js = Inr records"
    and "json_dumps L (cache_data stored_etag records) = Inr blob"
    and "kv_put kvstore s log_path blob = (Inr (), s1)"
    and "kv_get kvstore s1 log_path = (Inr (Some blob), s2)"
    and "json_loads L blob = Inr (cache_data stored_etag records)"
    and "stored_etag = None \<or> current_etag = None"
  shows "put_cached_df L kvstore s log_path stored_etag df = (Inr (), s1)
         \<and> get_cached_df L kvstore s1 log_path current_etag =
             (Inr (if stored_etag = None \<and> current_etag = None \<and> truthy records
                   then (case from_records L records of
                           Inl e \<Rightarrow> None
                         | Inr cached \<Rightarrow> Some cached)
                   else None), s2)"
  using assms(7) put_cached_df_stores[OF assms(1-4)] get_cached_df_entry[OF assms(5,6)]
  by auto

text \<open>\<open>good_table\<close> written with no etag, then read with no etag.\<close>

theorem absent_etag_matches_absent_only_witness:
  "put_cached_df demo_libs mem_store [] ''local.log'' None good_table
     = (Inr (), [(''local.log'', Doc (cache_data None good_records))])
   \<and> get_cached_df demo_libs mem_store
        [(''local.log'', Doc (cache_data None good_records))] ''local.log'' None
     = (Inr (Some good_table), [(''local.log'', Doc (cache_data None good_records))])"
proof -
  let ?blob = "Doc (cache_data None good_records)"
  have h5: "kv_get mem_store [(''local.log'', ?blob)] ''local.log''
              = (Inr (Some ?blob), [(''local.log'', ?blob)])"
    by (simp add: mem_store_get)
  have h7: "(None :: string option) = None \<or> (None :: string option) = None"
    by simp
  have rebuilt: "truthy good_records \<and> from_records demo_libs good_records = Inr good_table"
    by (simp add: good_records_truthy demo_from_records_good)
  from absent_etag_matches_absent_only
         [OF demo_to_json_good demo_loads_Doc demo_dumps mem_store_put h5 demo_loads_Doc h7]
       rebuilt
  show ?thesis by simp
qed

text \<open>
  As stated for every non-empty table, the claim fails in three ways, each on a table with
  at least one row, an empty store and no etag. The store has no room: the write of
  \<open>good_table\<close> is dropped and the read finds nothing. \<open>bare_table\<close> has rows and no
  columns, hence no records: the write takes effect and the read returns \<open>None\<close>.
  \<open>float_table\<close> holds \<open>0.1 + 0.2\<close>, which \<open>to_json\<close> writes as \<open>0.3\<close>: the read returns
  the cached table, which is not the table written.
\<close>

theorem absent_etag_not_same_table_counterexample:
  "df_rows good_table \<noteq> []
   \<and> fst (get_cached_df demo_libs full_store
            (snd (put_cached_df demo_libs full_store [] ''local.log'' None good_table))
            ''local.log'' None)
     = Inr None
   \<and> df_rows bare_table \<noteq> []
   \<and> fst (get_cached_df demo_libs mem_store
            (snd (put_cached_df demo_libs mem_store [] ''local.log'' None bare_table))
            ''local.log'' None)
     = Inr None
   \<and> df_rows float_table \<noteq> []
   \<and> fst (get_cached_df demo_libs mem_store
            (snd (put_cached_df demo_libs mem_store [] ''local.log'' None float_table))
            ''local.log'' None)
     = Inr (Some rounded_table)
   \<and> rounded_table \<noteq> float_table"
  by (simp add: good_table_def float_table_def rounded_table_def bare_table_def
        demo_libs_def mem_store_def full_store_def demo_to_json_def cache_data_def
        put_cached_df_def put_cached_try_def get_cached_df_def get_cached_try_def)

subsection \<open>Empty tables\<close>

text \<open>
  C6 (as amended). For every store state, path and etag: after a \<open>put_cached_df\<close> of a
  table with no rows (its records are the empty list) whose write took effect, a
  \<open>get_cached_df\<close> with the same etag returns \<open>None\<close>. And for every store state: whenever
  \<open>get_cached_df\<close> returns a table, the stored "records" are non-empty and the table is
  the one \<open>from_records\<close> builds from them; that table may have no rows.
\<close>

theorem empty_records_are_a_miss:
  "(to_json_records L df = Inr js
      \<and> json_loads L js = Inr (PList [])
      \<and> json_dumps L (cache_data etag (PList [])) = Inr blob
      \<and> kv_put kvstore s log_path blob = (Inr (), s1)
      \<and> kv_get kvstore s1 log_path = (Inr (Some blob), s2)
      \<and> json_loads L blob = Inr (cache_data etag (PList []))
    \<longrightarrow> put_cached_df L kvstore s log_path etag df = (Inr (), s1)
        \<and> get_cached_df L kvstore s1 log_path etag = (Inr None, s2))
   \<and> (get_cached_df L kvstore s' log_path' etag' = (Inr (Some df'), s'')
    \<longrightarrow> (\<exists>blob' cached_data records.
           kv_get kvstore s' log_path' = (Inr (Some blob'), s'')
           \<and> json_loads L blob' = Inr cached_data
           \<and> py_get cached_data ''records'' (PList []) = Inr records
           \<and> truthy records
           \<and> from_records L records = Inr df'))"
proof (intro conjI impI)
  assume a: "to_json_records L df = Inr js
      \<and> json_loads L js = Inr (PList [])
      \<and> json_dumps L (cache_data etag (PList [])) = Inr blob
      \<and> kv_put kvstore s log_path blob = (Inr (), s1)
      \<and> kv_get kvstore s1 log_path = (Inr (Some blob), s2)
      \<and> json_loads L blob = Inr (cache_data etag (PList []))"
  from a show "put_cached_df L kvstore s log_path etag df = (Inr (), s1)"
    by (simp add: put_cached_df_stores)
  from a show "get_cached_df L kvstore s1 log_path etag = (Inr None, s2)"
    by (simp add: get_cached_df_entry)
next
  assume "get_cached_df L kvstore s' log_path' etag' = (Inr (Some df'), s'')"
  from get_cached_df_hit[OF this]
  show "\<exists>blob' cached_data records.
           kv_get kvstore s' log_path' = (Inr (Some blob'), s'')
           \<and> json_loads L blob' = Inr cached_data
           \<and> py_get cached_data ''records'' (PList []) = Inr records
           \<and> truthy records
           \<and> from_records L records = Inr df'"
    by blast
qed

text \<open>
  The table without rows written under \<open>E1\<close> and read back; and the read of an entry with
  one record, which returns a table.
\<close>

theorem empty_records_are_a_miss_witness:
  "put_cached_df demo_libs mem_store [] ''a.log'' (Some ''E1'') empty_table
     = (Inr (), [(''a.log'', Doc (cache_data (Some ''E1'') (PList [])))])
   \<and> get_cached_df demo_libs mem_store
        [(''a.log'', Doc (cache_data (Some ''E1'') (PList [])))] ''a.log'' (Some ''E1'')
     = (Inr None, [(''a.log'', Doc (cache_data (Some ''E1'') (PList [])))])
   \<and> (\<exists>blob' cached_data records.
         kv_get mem_store [(''a.log'', old_entry (Some ''E1''))] ''a.log''
           = (Inr (Some blob'), [(''a.log'', old_entry (Some ''E1''))])
         \<and> json_loads demo_libs blob' = Inr cached_data
         \<and> py_get cached_data ''records'' (PList []) = Inr records
         \<and> truthy records
         \<and> from_records demo_libs records = Inr old_table)"
proof -
  let ?blob = "Doc (cache_data (Some ''E1'') (PList []))"
  let ?old = "[(''a.log'', old_entry (Some ''E1''))]"
  have a: "to_json_records demo_libs empty_table = Inr (Doc (PList []))
      \<and> json_loads demo_libs (Doc (PList [])) = Inr (PList [])
      \<and> json_dumps demo_libs (cache_data (Some ''E1'') (PList [])) = Inr ?blob
      \<and> kv_put mem_store [] ''a.log'' ?blob = (Inr (), [(''a.log'', ?blob)])
      \<and> kv_get mem_store [(''a.log'', ?blob)] ''a.log'' = (Inr (Some ?blob), [(''a.log'', ?blob)])
      \<and> json_loads demo_libs ?blob = Inr (cache_data (Some ''E1'') (PList []))"
    by (simp add: demo_libs_def demo_to_json_def mem_store_def empty_table_def)
  have b: "get_cached_df demo_libs mem_store ?old ''a.log'' (Some ''E1'')
             = (Inr (Some old_table), ?old)"
    by (simp add: old_table_def old_entry_def cache_data_def demo_libs_def mem_store_def
          get_cached_df_def get_cached_try_def)
  note t = empty_records_are_a_miss
             [where L = demo_libs and kvstore = mem_store and df = empty_table
                and js = "Doc (PList [])" and etag = "Some ''E1''" and blob = ?blob
                and s = "[]" and log_path = "''a.log''" and ?s1.0 = "[(''a.log'', ?blob)]"
                and ?s2.0 = "[(''a.log'', ?blob)]"
                and s' = ?old and log_path' = "''a.log''" and etag' = "Some ''E1''"
                and df' = old_table and s'' = ?old]
  from t[THEN conjunct1, rule_format, OF a] t[THEN conjunct2, rule_format, OF b]
  show ?thesis by simp
qed

text \<open>
  As stated, both halves fail. The store holds an entry under \<open>E1\<close> and has no room: the
  write of the table without rows is dropped, and the read with \<open>E1\<close> returns the table
  of the old entry. And the store holds, under \<open>E1\<close>, an entry whose only record has no
  key: the read with \<open>E1\<close> returns a table, and that table has no rows.
\<close>

theorem get_after_empty_put_hit_counterexample:
  "df_rows empty_table = []
   \<and> get_cached_df demo_libs full_store
       (snd (put_cached_df demo_libs full_store [(''a.log'', old_entry (Some ''E1''))]
               ''a.log'' (Some ''E1'') empty_table))
       ''a.log'' (Some ''E1'')
     = (Inr (Some old_table), [(''a.log'', old_entry (Some ''E1''))])
   \<and> get_cached_df demo_libs mem_store [(''b.log'', keyless_entry (Some ''E1''))]
       ''b.log'' (Some ''E1'')
     = (Inr (Some (DataFrame [] [])), [(''b.log'', keyless_entry (Some ''E1''))])
   \<and> df_rows (DataFrame [] []) = []"
  by (simp add: empty_table_def old_table_def old_entry_def keyless_entry_def cache_data_def
        demo_libs_def mem_store_def full_store_def demo_to_json_def
        put_cached_df_def put_cached_try_def get_cached_df_def get_cached_try_def)

subsection \<open>Failures of the cache are never raised\<close>

text \<open>
  C3 (as amended). For every store state, path and etag, \<open>get_cached_df\<close> returns to the
  caller and raises nothing: any exception of the \<open>try\<close> block becomes \<open>None\<close>. The result
  is \<open>None\<close> when the key is missing, when the stored text does not decode, when the
  decoded value is not a dictionary, and when \<open>from_records\<close> rejects the records. A
  decoded dictionary of any other shape raises nothing and is read by the ordinary rules:
  a missing "etag" counts as an absent etag, missing "records" as no records, and the
  result is what \<open>from_records\<close> builds from the records when the etag matches and the
  records are non-empty.
\<close>

theorem get_cached_df_never_raises:
  "(\<exists>r. fst (get_cached_df L kvstore s log_path current_etag) = Inr r)
   \<and> (fst (get_cached_try L kvstore s log_path current_etag) = Inl e
        \<longrightarrow> get_cached_df L kvstore s log_path current_etag
              = (Inr None, snd (get_cached_try L kvstore s log_path current_etag)))
   \<and> (kv_get kvstore s log_path = (Inr None, s1)
        \<longrightarrow> get_cached_df L kvstore s log_path current_etag = (Inr None, s1))
   \<and> (kv_get kvstore s log_path = (Inr (Some blob), s1) \<and> json_loads L blob = Inl e
        \<longrightarrow> get_cached_df L kvstore s log_path current_etag = (Inr None, s1))
   \<and> (kv_get kvstore s log_path = (Inr (Some blob), s1) \<and> json_loads L blob = Inr v
        \<and> (\<forall>kvs. v \<noteq> PDict kvs)
        \<longrightarrow> get_cached_df L kvstore s log_path current_etag = (Inr None, s1))
   \<and> (kv_get kvstore s log_path = (Inr (Some blob), s1) \<and> json_loads L blob = Inr v
        \<and> py_get v ''records'' (PList []) = Inr records \<and> from_records L records = Inl e
        \<longrightarrow> get_cached_df L kvstore s log_path current_etag = (Inr None, s1))
   \<and> (kv_get kvstore s log_path = (Inr (Some blob), s1) \<and> json_loads L blob = Inr (PDict items)
        \<longrightarrow> get_cached_df L kvstore s log_path current_etag
              = (Inr (if (case map_of items ''etag'' of None \<Rightarrow> PNone | Some t \<Rightarrow> t)
                           = etag_val current_etag
                         \<and> truthy (case map_of items ''records'' of
                                     None \<Rightarrow> PList [] | Some rs \<Rightarrow> rs)
                      then (case from_records L (case map_of items ''records'' of
                                                   None \<Rightarrow> PList [] | Some rs \<Rightarrow> rs) of
                              Inl x \<Rightarrow> None
                            | Inr df \<Rightarrow> Some df)
                      else None), s1))"
proof (intro conjI impI)
  show "\<exists>r. fst (get_cached_df L kvstore s log_path current_etag) = Inr r"
    by (auto simp: get_cached_df_def split: prod.splits sum.splits)
next
  assume "fst (get_cached_try L kvstore s log_path current_etag) = Inl e"
  then show "get_cached_df L kvstore s log_path current_etag
               = (Inr None, snd (get_cached_try L kvstore s log_path current_etag))"
    by (auto simp: get_cached_df_def split: prod.splits sum.splits)
next
  assume "kv_get kvstore s log_path = (Inr None, s1)"
  then show "get_cached_df L kvstore s log_path current_etag = (Inr None, s1)"
    by (simp add: get_cached_df_def get_cached_try_def)
next
  assume "kv_get kvstore s log_path = (Inr (Some blob), s1) \<and> json_loads L blob = Inl e"
  then show "get_cached_df L kvstore s log_path current_etag = (Inr None, s1)"
    by (simp add: get_cached_df_def get_cached_try_def)
next
  assume "kv_get kvstore s log_path = (Inr (Some blob), s1) \<and> json_loads L blob = Inr v
            \<and> (\<forall>kvs. v \<noteq> PDict kvs)"
  then show "get_cached_df L kvstore s log_path current_etag = (Inr None, s1)"
    by (cases v) (auto simp: get_cached_df_def get_cached_try_def)
next
  assume "kv_get kvstore s log_path = (Inr (Some blob), s1) \<and> json_loads L blob = Inr v
            \<and> py_get v ''records'' (PList []) = Inr records \<and> from_records L records = Inl e"
  then show "get_cached_df L kvstore s log_path current_etag = (Inr None, s1)"
    by (cases v) (auto simp: get_cached_df_def get_cached_try_def split: sum.splits)
next
  assume "kv_get kvstore s log_path = (Inr (Some blob), s1)
            \<and> json_loads L blob = Inr (PDict items)"
  then show "get_cached_df L kvstore s log_path current_etag
              = (Inr (if (case map_of items ''etag'' of None \<Rightarrow> PNone | Some t \<Rightarrow> t)
                           = etag_val current_etag
                         \<and> truthy (case map_of items ''records'' of
                                     None \<Rightarrow> PList [] | Some rs \<Rightarrow> rs)
                      then (case from_records L (case map_of items ''records'' of
                                                   None \<Rightarrow> PList [] | Some rs \<Rightarrow> rs) of
                              Inl x \<Rightarrow> None
                            | Inr df \<Rightarrow> Some df)
                      else None), s1)"
    by (auto simp: get_cached_df_def get_cached_try_def split: sum.splits)
qed

text \<open>
  Five reads of the in-memory store: a key never written, a text that is not JSON, a text
  that decodes to a list, an entry whose records are not row objects, and an entry as
  \<open>put_cached_df\<close> writes it.
\<close>

theorem get_cached_df_never_raises_witness:
  "get_cached_df demo_libs mem_store [] ''never-written.log'' (Some ''E1'') = (Inr None, [])
   \<and> get_cached_df demo_libs mem_store [(''a.log'', Garbage ''{etag:'')] ''a.log'' (Some ''E1'')
       = (Inr None, [(''a.log'', Garbage ''{etag:'')])
   \<and> get_cached_df demo_libs mem_store [(''a.log'', Doc (PList [PInt 1]))] ''a.log'' None
       = (Inr None, [(''a.log'', Doc (PList [PInt 1]))])
   \<and> get_cached_df demo_libs mem_store
        [(''a.log'', Doc (cache_data None (PList [PInt 3])))] ''a.log'' None
       = (Inr None, [(''a.log'', Doc (cache_data None (PList [PInt 3])))])
   \<and> get_cached_df demo_libs mem_store [(''a.log'', old_entry (Some ''E1''))] ''a.log''
        (Some ''E1'')
       = (Inr (Some old_table), [(''a.log'', old_entry (Some ''E1''))])"
proof -
  let ?g = "[(''a.log'', Garbage ''{etag:'')]"
  let ?l = "[(''a.log'', Doc (PList [PInt 1]))]"
  let ?r = "[(''a.log'', Doc (cache_data None (PList [PInt 3])))]"
  let ?o = "[(''a.log'', old_entry (Some ''E1''))]"
  let ?items = "[(''etag'', PStr ''E1''), (''records'', PList [PDict [(''id'', PInt 7)]])]"
  have missing: "kv_get mem_store [] ''never-written.log'' = (Inr None, [])"
    by (simp add: mem_store_get)
  have garbage: "kv_get mem_store ?g ''a.log'' = (Inr (Some (Garbage ''{etag:'')), ?g)
                 \<and> json_loads demo_libs (Garbage ''{etag:'') = Inl (Exception ''JSONDecodeError'')"
    by (simp add: mem_store_get demo_libs_def)
  have raised: "fst (get_cached_try demo_libs mem_store ?g ''a.log'' (Some ''E1''))
                  = Inl (Exception ''JSONDecodeError'')"
    by (simp add: get_cached_try_def mem_store_get demo_libs_def)
  have shape: "kv_get mem_store ?l ''a.log'' = (Inr (Some (Doc (PList [PInt 1]))), ?l)
               \<and> json_loads demo_libs (Doc (PList [PInt 1])) = Inr (PList [PInt 1])
               \<and> (\<forall>kvs. PList [PInt 1] \<noteq> PDict kvs)"
    by (simp add: mem_store_get demo_libs_def)
  have rows: "kv_get mem_store ?r ''a.log''
                = (Inr (Some (Doc (cache_data None (PList [PInt 3])))), ?r)
              \<and> json_loads demo_libs (Doc (cache_data None (PList [PInt 3])))
                  = Inr (cache_data None (PList [PInt 3]))
              \<and> py_get (cache_data None (PList [PInt 3])) ''records'' (PList [])
                  = Inr (PList [PInt 3])
              \<and> from_records demo_libs (PList [PInt 3]) = Inl (Exception ''TypeError'')"
    by (simp add: mem_store_get demo_libs_def cache_data_def)
  have entry: "kv_get mem_store ?o ''a.log'' = (Inr (Some (old_entry (Some ''E1''))), ?o)
               \<and> json_loads demo_libs (old_entry (Some ''E1'')) = Inr (PDict ?items)"
    by (simp add: mem_store_get demo_libs_def old_entry_def cache_data_def)
  note t = get_cached_df_never_raises [where L = demo_libs and kvstore = mem_store]
  have r1: "get_cached_df demo_libs mem_store [] ''never-written.log'' (Some ''E1'')
             = (Inr None, [])"
    using t[THEN conjunct2, THEN conjunct2, THEN conjunct1, rule_format, OF missing] .
  have r2: "get_cached_df demo_libs mem_store ?g ''a.log'' (Some ''E1'') = (Inr None, ?g)"
    using t[THEN conjunct2, THEN conjunct2, THEN conjunct2, THEN conjunct1, rule_format,
            OF garbage] .
  have r2b: "get_cached_df demo_libs mem_store ?g ''a.log'' (Some ''E1'')
              = (Inr None, snd (get_cached_try demo_libs mem_store ?g ''a.log'' (Some ''E1'')))"
    using t[THEN conjunct2, THEN conjunct1, rule_format, OF raised] .
  have r3: "get_cached_df demo_libs mem_store ?l ''a.log'' None = (Inr None, ?l)"
    using t[THEN conjunct2, THEN conjunct2, THEN conjunct2, THEN conjunct2, THEN conjunct1,
            rule_format, OF shape] .
  have r4: "get_cached_df demo_libs mem_store ?r ''a.log'' None = (Inr None, ?r)"
    using t[THEN conjunct2, THEN conjunct2, THEN conjunct2, THEN conjunct2, THEN conjunct2,
            THEN conjunct1, rule_format, OF rows] .
  have r5: "get_cached_df demo_libs mem_store ?o ''a.log'' (Some ''E1'')
              = (Inr (Some old_table), ?o)"
    using t[where current_etag = "Some ''E1''",
            THEN conjunct2, THEN conjunct2, THEN conjunct2, THEN conjunct2, THEN conjunct2,
            THEN conjunct2, rule_format, OF entry]
    by (simp add: demo_libs_def old_table_def)
  from r1 r2 r2b r3 r4 r5 show ?thesis by simp
qed

text \<open>
  As stated, a decoded value of unexpected shape is not always a miss. An entry without an
  "etag" key, read with no etag, returns the table of its records. An entry whose
  "records" are an object of columns, not a list of row objects, returns the table of
  these columns.
\<close>

theorem get_cached_df_odd_shape_hit_counterexample:
  "get_cached_df demo_libs mem_store [(''a.log'', no_etag_entry)] ''a.log'' None
     = (Inr (Some old_table), [(''a.log'', no_etag_entry)])
   \<and> get_cached_df demo_libs mem_store [(''a.log'', columns_entry)] ''a.log'' None
     = (Inr (Some (DataFrame [''id''] [[Cell (PInt 7)], [Cell (PInt 8)]])),
        [(''a.log'', columns_entry)])"
  by (simp add: no_etag_entry_def columns_entry_def old_table_def cache_data_def
        demo_libs_def mem_store_def get_cached_df_def get_cached_try_def)

text \<open>
  C4. For every store state, path, etag and table, \<open>put_cached_df\<close> returns to the caller
  and raises nothing. A table that cannot be serialised leaves the store untouched; and
  whenever the \<open>try\<close> block raises, the store is either untouched or as the failing
  \<open>kvstore.put\<close> left it.
\<close>

theorem put_cached_df_never_raises:
  "fst (put_cached_df L kvstore s log_path etag df) = Inr ()
   \<and> (to_json_records L df = Inl e
        \<longrightarrow> put_cached_df L kvstore s log_path etag df = (Inr (), s))
   \<and> (fst (put_cached_try L kvstore s log_path etag df) = Inl e
        \<longrightarrow> put_cached_df L kvstore s log_path etag df
              = (Inr (), snd (put_cached_try L kvstore s log_path etag df))
            \<and> (snd (put_cached_try L kvstore s log_path etag df) = s
               \<or> (\<exists>blob. kv_put kvstore s log_path blob
                            = (Inl e, snd (put_cached_try L kvstore s log_path etag df)))))"
proof (intro conjI impI)
  show "fst (put_cached_df L kvstore s log_path etag df) = Inr ()"
    by (simp add: put_cached_df_def split: prod.splits sum.splits)
next
  assume "to_json_records L df = Inl e"
  then show "put_cached_df L kvstore s log_path etag df = (Inr (), s)"
    by (simp add: put_cached_df_def put_cached_try_def)
next
  assume "fst (put_cached_try L kvstore s log_path etag df) = Inl e"
  then show "put_cached_df L kvstore s log_path etag df
               = (Inr (), snd (put_cached_try L kvstore s log_path etag df))"
    by (auto simp: put_cached_df_def split: prod.splits sum.splits)
next
  assume f: "fst (put_cached_try L kvstore s log_path etag df) = Inl e"
  show "snd (put_cached_try L kvstore s log_path etag df) = s
             \<or> (\<exists>blob. kv_put kvstore s log_path blob
                          = (Inl e, snd (put_cached_try L kvstore s log_path etag df)))"
  proof (cases "to_json_records L df")
    case (Inl a)
    then show ?thesis by (simp add: put_cached_try_def)
  next
    case js: (Inr js)
    show ?thesis
    proof (cases "json_loads L js")
      case (Inl a)
      with js show ?thesis by (simp add: put_cached_try_def)
    next
      case records: (Inr records)
      show ?thesis
      proof (cases "json_dumps L (cache_data etag records)")
        case (Inl a)
        with js records show ?thesis by (simp add: put_cached_try_def)
      next
        case (Inr blob)
        with js records
        have "put_cached_try L kvstore s log_path etag df = kv_put kvstore s log_path blob"
          by (simp add: put_cached_try_def)
        with f have "kv_put kvstore s log_path blob
                       = (Inl e, snd (put_cached_try L kvstore s log_path etag df))"
          by (metis prod.collapse)
        then show ?thesis by blast
      qed
    qed
  qed
qed

text \<open>
  A table that cannot be serialised, written to the in-memory store; and a table written
  to the store that has no room.
\<close>

theorem put_cached_df_never_raises_witness:
  "put_cached_df demo_libs mem_store [(''a.log'', old_entry None)] ''a.log'' (Some ''E1'')
       bad_table
     = (Inr (), [(''a.log'', old_entry None)])
   \<and> put_cached_df demo_libs full_store [] ''a.log'' (Some ''E1'') good_table = (Inr (), [])"
proof -
  let ?s = "[(''a.log'', old_entry None)]"
  have unserialisable: "to_json_records demo_libs bad_table = Inl (Exception ''OverflowError'')"
    by (simp add: demo_libs_def demo_to_json_def bad_table_def)
  have try_full: "put_cached_try demo_libs full_store [] ''a.log'' (Some ''E1'') good_table
                    = (Inl (Exception ''OSError''), [])"
    by (simp add: put_cached_try_def demo_to_json_good demo_loads_Doc demo_dumps full_store_put)
  then have no_room: "fst (put_cached_try demo_libs full_store [] ''a.log'' (Some ''E1'') good_table)
                        = Inl (Exception ''OSError'')"
    by simp
  have r1: "put_cached_df demo_libs mem_store ?s ''a.log'' (Some ''E1'') bad_table = (Inr (), ?s)"
    using put_cached_df_never_raises
            [where L = demo_libs and kvstore = mem_store and s = ?s and df = bad_table,
             THEN conjunct2, THEN conjunct1, rule_format, OF unserialisable] .
  have r2: "put_cached_df demo_libs full_store [] ''a.log'' (Some ''E1'') good_table
              = (Inr (), snd (put_cached_try demo_libs full_store [] ''a.log'' (Some ''E1'')
                                good_table))"
    using put_cached_df_never_raises
            [where L = demo_libs and kvstore = full_store and s = "[]" and df = good_table,
             THEN conjunct2, THEN conjunct2, rule_format, OF no_room, THEN conjunct1] .
  from r1 r2 try_full show ?thesis by simp
qed

subsection \<open>A read leaves the store alone\<close>

text \<open>
  C9. For every store state, path and current etag, the only access of \<open>get_cached_df\<close> to
  the store is its one \<open>kvstore.get\<close>: the store it leaves is the store that call leaves.
  So when the store's \<open>get\<close> does not change the store, \<open>get_cached_df\<close> leaves the store
  unchanged, for every key and whether or not the entry is stale.
\<close>

theorem get_cached_df_leaves_store:
  "snd (get_cached_df L kvstore s log_path current_etag) = snd (kv_get kvstore s log_path)
   \<and> (snd (kv_get kvstore s log_path) = s
      \<longrightarrow> snd (get_cached_df L kvstore s log_path current_etag) = s
          \<and> (\<forall>k. kv_get kvstore (snd (get_cached_df L kvstore s log_path current_etag)) k
                   = kv_get kvstore s k))"
proof -
  have "snd (get_cached_try L kvstore s log_path current_etag) = snd (kv_get kvstore s log_path)"
    by (simp add: get_cached_try_def split: prod.splits sum.splits option.splits)
  then have "snd (get_cached_df L kvstore s log_path current_etag)
               = snd (kv_get kvstore s log_path)"
    by (auto simp: get_cached_df_def split: prod.splits sum.splits)
  then show ?thesis by simp
qed

text \<open>A stale entry, written under \<open>E1\<close> and read with \<open>E2\<close>, is still in the store.\<close>

theorem get_cached_df_leaves_store_witness:
  "snd (get_cached_df demo_libs mem_store [(''a.log'', old_entry (Some ''E1''))] ''a.log''
          (Some ''E2''))
     = [(''a.log'', old_entry (Some ''E1''))]
   \<and> (\<forall>k. kv_get mem_store
              (snd (get_cached_df demo_libs mem_store [(''a.log'', old_entry (Some ''E1''))]
                      ''a.log'' (Some ''E2''))) k
            = kv_get mem_store [(''a.log'', old_entry (Some ''E1''))] k)"
proof -
  let ?s = "[(''a.log'', old_entry (Some ''E1''))]"
  have read_only: "snd (kv_get mem_store ?s ''a.log'') = ?s"
    by (simp add: mem_store_get)
  show ?thesis
    using get_cached_df_leaves_store
            [where L = demo_libs and kvstore = mem_store and s = ?s and log_path = "''a.log''"
               and current_etag = "Some ''E2''",
             THEN conjunct2, rule_format, OF read_only] .
qed

section \<open>Properties of the resolver\<close>

subsection \<open>Auxiliary facts\<close>

text \<open>The loop over a list in two parts is the loop over the first, then over the second.\<close>

lemma expand_dirs_append:
  "expand_dirs R b (xs @ ys) log_paths =
     (case expand_dirs R b xs log_paths of
        (Inl e, b1) \<Rightarrow> (Inl e, b1)
      | (Inr log_paths1, b1) \<Rightarrow> expand_dirs R b1 ys log_paths1)"
  by (induction xs arbitrary: b log_paths)
     (auto split: prod.splits sum.splits)

text \<open>Over a backend that its reads leave as it is, the loop leaves the backend as it is.\<close>

lemma expand_dirs_read_only:
  assumes "\<forall>p. snd (fs_info R b p) = b" and "\<forall>p n. snd (fs_ls R b p n) = b"
  shows "snd (expand_dirs R b xs log_paths) = b"
  using assms
proof (induction xs arbitrary: log_paths)
  case Nil
  then show ?case by simp
next
  case (Cons x xs)
  obtain r b1 where i: "fs_info R b x = (r, b1)" by (cases "fs_info R b x")
  with Cons.prems(1) have b1: "b1 = b" by (metis snd_conv)
  show ?case
  proof (cases r)
    case (Inl e)
    with i b1 show ?thesis by simp
  next
    case (Inr info)
    show ?thesis
    proof (cases "fi_type info = ''directory''")
      case True
      obtain r2 b2 where l: "fs_ls R b x (fi_name info) = (r2, b2)"
        by (cases "fs_ls R b x (fi_name info)")
      with Cons.prems(2) have b2: "b2 = b" by (metis snd_conv)
      show ?thesis
        using i b1 Inr True l b2 Cons.IH[OF Cons.prems]
        by (cases r2) simp_all
    next
      case False
      then show ?thesis
        using i b1 Inr Cons.IH[OF Cons.prems] by simp
    qed
  qed
qed

lemma demo_info_read_only: "snd (demo_info b p) = b"
  by (simp add: demo_info_def split: option.splits prod.splits)

lemma demo_ls_read_only: "snd (demo_ls b p n) = b"
  by (simp add: demo_ls_def split: option.splits prod.splits)

subsection \<open>Resolving twice\<close>

text \<open>
  C7. For every argument \<open>logs\<close> and every backend state \<open>b\<close> that the backend's reads
  leave unchanged: \<open>resolve_logs_with_etag\<close> leaves the backend in state \<open>b\<close>, and a
  second call on the same argument returns the same result as the first.
\<close>

theorem resolve_twice_same_result:
  assumes "\<forall>p. snd (fs_info R b p) = b" and "\<forall>p n. snd (fs_ls R b p n) = b"
  shows "snd (resolve_logs_with_etag R b logs) = b
         \<and> fst (resolve_logs_with_etag R (snd (resolve_logs_with_etag R b logs)) logs)
             = fst (resolve_logs_with_etag R b logs)"
proof -
  have "snd (expand_dirs R b (map (log_str_of R) (logs_list_of logs)) []) = b"
    by (rule expand_dirs_read_only[OF assms])
  then have "snd (resolve_logs_with_etag R b logs) = b"
    by (auto simp: resolve_logs_with_etag_def Let_def split: prod.splits sum.splits)
  then show ?thesis by simp
qed

text \<open>The directory \<open>logs\<close> of \<open>demo_tree\<close>, resolved twice.\<close>

theorem resolve_twice_same_result_witness:
  "snd (resolve_logs_with_etag demo_resolver demo_tree (One (Str ''logs''))) = demo_tree
   \<and> fst (resolve_logs_with_etag demo_resolver
            (snd (resolve_logs_with_etag demo_resolver demo_tree (One (Str ''logs''))))
            (One (Str ''logs'')))
       = fst (resolve_logs_with_etag demo_resolver demo_tree (One (Str ''logs'')))"
proof -
  have h1: "\<forall>p. snd (fs_info demo_resolver demo_tree p) = demo_tree"
    by (simp add: demo_resolver_def demo_info_read_only)
  have h2: "\<forall>p n. snd (fs_ls demo_resolver demo_tree p n) = demo_tree"
    by (simp add: demo_resolver_def demo_ls_read_only)
  show ?thesis
    by (rule resolve_twice_same_result[OF h1 h2])
qed

subsection \<open>Backend failures\<close>

text \<open>
  C8. For every argument of \<open>resolve_logs_with_etag\<close>: if, for one of the given references,
  the backend's \<open>info\<close> raises, or reports a directory whose \<open>ls\<close> raises, when the loop
  reaches that reference (the references before it were expanded without failure), then
  the call ends with that same exception and returns no list.
\<close>

theorem resolve_propagates_backend_failure:
  assumes "logs_list_of logs = before @ r # rest"
    and "expand_dirs R b (map (log_str_of R) before) [] = (Inr log_paths, b1)"
    and "fs_info R b1 (log_str_of R r) = (Inl e, b2)
         \<or> (\<exists>info b'. fs_info R b1 (log_str_of R r) = (Inr info, b')
               \<and> fi_type info = ''directory''
               \<and> fs_ls R b' (log_str_of R r) (fi_name info) = (Inl e, b2))"
  shows "resolve_logs_with_etag R b logs = (Inl e, b2)"
proof -
  have "expand_dirs R b1 (log_str_of R r # map (log_str_of R) rest) log_paths = (Inl e, b2)"
    using assms(3) by auto
  then have "expand_dirs R b (map (log_str_of R) (logs_list_of logs)) [] = (Inl e, b2)"
    using assms(1,2) by (simp add: expand_dirs_append)
  then show ?thesis
    by (simp add: resolve_logs_with_etag_def)
qed

text \<open>
  A path the backend does not know, after a directory that resolves; and a directory that
  may not be listed, after a file.
\<close>

theorem resolve_propagates_backend_failure_witness:
  "resolve_logs_with_etag demo_resolver demo_tree
     (Sequence [Str ''logs'', PathLike ''missing.eval'', Str ''logs/a.eval''])
     = (Inl (Exception ''FileNotFoundError''), demo_tree)
   \<and> resolve_logs_with_etag demo_resolver demo_tree
       (Sequence [EvalLogInfo \<lparr>eli_name = ''logs/b.eval''\<rparr>, Str ''locked''])
     = (Inl (Exception ''PermissionError''), demo_tree)"
proof -
  have l1: "logs_list_of (Sequence [Str ''logs'', PathLike ''missing.eval'', Str ''logs/a.eval''])
              = [Str ''logs''] @ PathLike ''missing.eval'' # [Str ''logs/a.eval'']"
    by simp
  have p1: "expand_dirs demo_resolver demo_tree (map (log_str_of demo_resolver) [Str ''logs''])
              [] = (Inr [file_a, file_txt, file_b], demo_tree)"
    by (simp add: demo_resolver_def demo_info_def demo_ls_def demo_tree_def dir_logs_def
          file_a_def file_b_def file_txt_def)
  have f1: "fs_info demo_resolver demo_tree (log_str_of demo_resolver (PathLike ''missing.eval''))
              = (Inl (Exception ''FileNotFoundError''), demo_tree)
            \<or> (\<exists>info b'. fs_info demo_resolver demo_tree
                            (log_str_of demo_resolver (PathLike ''missing.eval''))
                            = (Inr info, b')
                  \<and> fi_type info = ''directory''
                  \<and> fs_ls demo_resolver b' (log_str_of demo_resolver (PathLike ''missing.eval''))
                        (fi_name info)
                      = (Inl (Exception ''FileNotFoundError''), demo_tree))"
    by (simp add: demo_resolver_def demo_info_def demo_tree_def)
  have l2: "logs_list_of (Sequence [EvalLogInfo \<lparr>eli_name = ''logs/b.eval''\<rparr>, Str ''locked''])
              = [EvalLogInfo \<lparr>eli_name = ''logs/b.eval''\<rparr>] @ Str ''locked'' # []"
    by simp
  have p2: "expand_dirs demo_resolver demo_tree
              (map (log_str_of demo_resolver) [EvalLogInfo \<lparr>eli_name = ''logs/b.eval''\<rparr>]) []
              = (Inr [file_b], demo_tree)"
    by (simp add: demo_resolver_def demo_info_def demo_tree_def file_b_def)
  have "fs_info demo_resolver demo_tree (log_str_of demo_resolver (Str ''locked''))
          = (Inr dir_locked, demo_tree)
        \<and> fi_type dir_locked = ''directory''
        \<and> fs_ls demo_resolver demo_tree (log_str_of demo_resolver (Str ''locked''))
              (fi_name dir_locked)
            = (Inl (Exception ''PermissionError''), demo_tree)"
    by (simp add: demo_resolver_def demo_info_def demo_ls_def demo_tree_def dir_locked_def)
  then have f2: "fs_info demo_resolver demo_tree (log_str_of demo_resolver (Str ''locked''))
              = (Inl (Exception ''PermissionError''), demo_tree)
            \<or> (\<exists>info b'. fs_info demo_resolver demo_tree (log_str_of demo_resolver (Str ''locked''))
                            = (Inr info, b')
                  \<and> fi_type info = ''directory''
                  \<and> fs_ls demo_resolver b' (log_str_of demo_resolver (Str ''locked''))
                        (fi_name info)
                      = (Inl (Exception ''PermissionError''), demo_tree))"
    by blast
  from resolve_propagates_backend_failure[OF l1 p1 f1]
       resolve_propagates_backend_failure[OF l2 p2 f2]
  show ?thesis by simp
qed

subsection \<open>One reference and the list of one reference\<close>

text \<open>
  C10. For every single reference \<open>r\<close> (a string, a path or an \<open>EvalLogInfo\<close>),
  \<open>resolve_logs_with_etag\<close> applied to \<open>r\<close> alone returns what it returns applied to the
  one-element sequence \<open>[r]\<close>.
\<close>

theorem resolve_one_is_resolve_singleton:
  "resolve_logs_with_etag R b (One r) = resolve_logs_with_etag R b (Sequence [r])"
  by (simp add: resolve_logs_with_etag_def)

end
